theory Spec2Isabelle
  imports Complex_Main "HOL-Library.AList" "HOL-Library.Extended_Nat" "HOL-Library.Multiset"
begin

section \<open>Detection types and the priority order (core\_auto\_sharp.py, lines 7--30)\<close>

text \<open>
  Detection types are Python strings in the source, so a candidate may carry any string,
  also one that is not in \<open>PRIORITY_ORDER\<close> (the module itself declares \<open>TYPE_NONE\<close>,
  which is not in the list). What the specification calls \<open>AUTHORED_*\<close> is \<open>BLENDER_*\<close>
  in the source.
\<close>

definition TYPE_NONE :: string where "TYPE_NONE = ''NONE''"
definition TYPE_BLENDER_SEAM :: string where "TYPE_BLENDER_SEAM = ''BLENDER_SEAM''"
definition TYPE_UV_SEAM_BOUNDARY :: string where "TYPE_UV_SEAM_BOUNDARY = ''UV_SEAM_BOUNDARY''"
definition TYPE_BLENDER_SHARP :: string where "TYPE_BLENDER_SHARP = ''BLENDER_SHARP''"
definition TYPE_BLENDER_CREASE :: string where "TYPE_BLENDER_CREASE = ''BLENDER_CREASE''"
definition TYPE_ANGLE_SHARP :: string where "TYPE_ANGLE_SHARP = ''ANGLE_SHARP''"
definition TYPE_CURVATURE_SHARP :: string where "TYPE_CURVATURE_SHARP = ''CURVATURE_SHARP''"
definition TYPE_BLENDER_BEVEL :: string where "TYPE_BLENDER_BEVEL = ''BLENDER_BEVEL''"

lemmas type_defs =
  TYPE_NONE_def TYPE_BLENDER_SEAM_def TYPE_UV_SEAM_BOUNDARY_def TYPE_BLENDER_SHARP_def
  TYPE_BLENDER_CREASE_def TYPE_ANGLE_SHARP_def TYPE_CURVATURE_SHARP_def TYPE_BLENDER_BEVEL_def

definition PRIORITY_ORDER :: "string list" where
  "PRIORITY_ORDER =
     [TYPE_UV_SEAM_BOUNDARY, TYPE_BLENDER_SEAM, TYPE_BLENDER_SHARP, TYPE_BLENDER_CREASE,
      TYPE_ANGLE_SHARP, TYPE_CURVATURE_SHARP, TYPE_BLENDER_BEVEL]"

text \<open>Python's \<open>list.index\<close>: the first position of the element; \<open>None\<close> is the ValueError.\<close>

fun py_index :: "'a list \<Rightarrow> 'a \<Rightarrow> nat option" where
  "py_index [] x = None"
| "py_index (y # ys) x = (if y = x then Some 0 else map_option Suc (py_index ys x))"

section \<open>The mesh (the part of Blender's BMesh that the module reads and writes)\<close>

text \<open>
  A face carries its normal; an edge carries its incident faces, its two end vertices and the
  authored attributes. An edge object is referred to by its position in the edge table of
  the mesh; a reference beyond the table is an edge that has been removed (\<open>is_valid\<close> is
  false for it). \<open>uv_active\<close> is \<open>bm.loops.layers.uv.active\<close>, \<open>None\<close> when the mesh has no
  UV layer. A mesh argument is a \<open>bmesh option\<close>, \<open>None\<close> being Python's \<open>None\<close>.
\<close>

type_synonym vector = "real \<times> real \<times> real"

record bmface =
  normal :: vector

record bmedge =
  verts :: "nat \<times> nat"
  link_faces :: "bmface list"
  smooth :: bool
  use_edge_sharp :: bool
  crease :: real
  seam :: bool
  bevel_weight :: real

record bmesh =
  edges :: "bmedge list"
  uv_active :: "nat option"

type_synonym edge_ref = nat

text \<open>
  A Python set is a list without repetition; \<open>set_add\<close> is \<open>set.add\<close>. The order of the
  list stands for the iteration order of the set, which the theorems below never rely on.
\<close>

definition set_add :: "'a \<Rightarrow> 'a list \<Rightarrow> 'a list" where
  "set_add x xs = (if x \<in> set xs then xs else xs @ [x])"

type_synonym detection = "string \<times> real"

section \<open>AM3, step 1: priority resolution (lines 268--291)\<close>

definition warn_unknown :: "string \<Rightarrow> string" where
  "warn_unknown t =
     ''Warning: Detection type '' @ [CHR 0x27] @ t @ [CHR 0x27] @ '' not in PRIORITY_ORDER.''"

text \<open>
  The inner loop over the detections of one edge. The state is the winning detection, the
  best priority index so far (\<open>float('inf')\<close> is \<open>\<infinity>\<close>) and the warnings printed so far.
\<close>

fun priority_loop ::
  "detection list \<Rightarrow> detection \<Rightarrow> enat \<Rightarrow> string list \<Rightarrow> detection \<times> enat \<times> string list" where
  "priority_loop [] winning best msgs = (winning, best, msgs)"
| "priority_loop ((detection_type, metric_value) # ds) winning best msgs =
     (case py_index PRIORITY_ORDER detection_type of
        Some priority_index \<Rightarrow>
          if enat priority_index < best
          then priority_loop ds (detection_type, metric_value) (enat priority_index) msgs
          else priority_loop ds winning best msgs
      | None \<Rightarrow>
          if \<infinity> < best
          then priority_loop ds (detection_type, metric_value) best
                 (msgs @ [warn_unknown detection_type])
          else priority_loop ds winning best (msgs @ [warn_unknown detection_type]))"

text \<open>The winning detection of a non-empty list: the loop started at \<open>detections[0]\<close>.\<close>

definition winning_detection :: "detection list \<Rightarrow> detection" where
  "winning_detection detections = fst (priority_loop detections (hd detections) \<infinity> [])"

text \<open>
  The outer loop over \<open>all_candidate_sources.items()\<close>. A dictionary is an association list
  in insertion order; \<open>AList.update\<close> is the assignment \<open>d[k] = v\<close>.
\<close>

definition resolve_edge ::
  "edge_ref \<times> detection list \<Rightarrow> (edge_ref \<times> detection) list \<times> string list
     \<Rightarrow> (edge_ref \<times> detection) list \<times> string list" where
  "resolve_edge item acc =
     (case item of (edge, detections) \<Rightarrow>
      case acc of (priority_resolved_edges, msgs) \<Rightarrow>
        (case detections of
           [] \<Rightarrow> (priority_resolved_edges, msgs)
         | d0 # _ \<Rightarrow>
             (case priority_loop detections d0 \<infinity> msgs of
                (winning, best, msgs') \<Rightarrow>
                  (AList.update edge winning priority_resolved_edges, msgs'))))"

definition priority_resolution ::
  "(edge_ref \<times> detection list) list \<Rightarrow> (edge_ref \<times> detection) list \<times> string list" where
  "priority_resolution all_candidate_sources = fold resolve_edge all_candidate_sources ([], [])"

section \<open>AM3, step 2: selection of the final edges (lines 316--339)\<close>

text \<open>
  The second loop runs over \<open>priority_resolved_edges.items()\<close>. An edge whose winning type is
  one of the five authored or UV types is added to \<open>final_selected_edges\<close>; an edge whose
  winning type is \<open>ANGLE_SHARP\<close> or \<open>CURVATURE_SHARP\<close> is recorded in
  \<open>geometric_candidates_for_chaining\<close> and added to \<open>final_selected_edges\<close> as well; an edge
  with any other winning type falls through both branches. Nothing reads
  \<open>geometric_candidates_for_chaining\<close> or \<open>min_feature_length\<close> afterwards.
\<close>

definition select_edge ::
  "edge_ref \<times> detection \<Rightarrow> edge_ref list \<times> (edge_ref \<times> detection) list
     \<Rightarrow> edge_ref list \<times> (edge_ref \<times> detection) list" where
  "select_edge item acc =
     (case item of (edge, (winning_type, metric)) \<Rightarrow>
      case acc of (final_selected_edges, geometric_candidates_for_chaining) \<Rightarrow>
        if winning_type \<in> set [TYPE_BLENDER_SEAM, TYPE_UV_SEAM_BOUNDARY, TYPE_BLENDER_SHARP,
                               TYPE_BLENDER_CREASE, TYPE_BLENDER_BEVEL]
        then (set_add edge final_selected_edges, geometric_candidates_for_chaining)
        else if winning_type \<in> set [TYPE_ANGLE_SHARP, TYPE_CURVATURE_SHARP]
        then (set_add edge final_selected_edges,
              AList.update edge (winning_type, metric) geometric_candidates_for_chaining)
        else (final_selected_edges, geometric_candidates_for_chaining))"

text \<open>The function returns the final set; the model returns the printed warnings with it.\<close>

definition am3_filter_refine_prioritize ::
  "bmesh option \<Rightarrow> (edge_ref \<times> detection list) list \<Rightarrow> int \<Rightarrow> edge_ref list \<times> string list" where
  "am3_filter_refine_prioritize bm all_candidate_sources min_feature_length =
     (if bm = None \<or> all_candidate_sources = [] then ([], [])
      else case priority_resolution all_candidate_sources of
             (priority_resolved_edges, msgs) \<Rightarrow>
               (fst (fold select_edge priority_resolved_edges ([], [])), msgs))"

section \<open>AM1: preparation (lines 34--84)\<close>

text \<open>
  The body of the \<open>try\<close> block is library code (\<open>ensure_lookup_table\<close>, \<open>normal_update\<close>); it
  is the parameter \<open>lib_prepare\<close>, which returns the mesh with its normals recomputed, or
  \<open>None\<close> when one of the calls raises.
\<close>

definition am1_prepare_bmesh_data ::
  "(bmesh \<Rightarrow> bmesh option) \<Rightarrow> bmesh option \<Rightarrow> bool \<times> bmesh option" where
  "am1_prepare_bmesh_data lib_prepare bm =
     (case bm of
        None \<Rightarrow> (False, None)
      | Some b \<Rightarrow>
          (case lib_prepare b of
             None \<Rightarrow> (False, Some b)
           | Some b' \<Rightarrow> (True, Some b')))"

section \<open>AM2: the detectors (lines 89--249)\<close>

text \<open>
  \<open>vec_angle\<close> is the library's \<open>Vector.angle\<close> on the normals of the two faces, a
  parameter of the model: the normals are those that AM1 has recomputed, and the function
  gives their angle in radians. The loop over \<open>bm.edges\<close> is a fold over the positions of the
  edge table.
\<close>

definition am2a_step ::
  "(vector \<Rightarrow> vector \<Rightarrow> real) \<Rightarrow> bmesh \<Rightarrow> real \<Rightarrow> edge_ref \<Rightarrow> edge_ref list \<Rightarrow> edge_ref list" where
  "am2a_step vec_angle b primary_detection_angle_rad i angle_sharp_candidates =
     (let edge = edges b ! i in
      if length (link_faces edge) = 2
      then (let face1 = link_faces edge ! 0;
                face2 = link_faces edge ! 1;
                angle = vec_angle (normal face1) (normal face2)
            in if angle > primary_detection_angle_rad
               then set_add i angle_sharp_candidates
               else angle_sharp_candidates)
      else angle_sharp_candidates)"

definition am2a_dihedral_angle_analysis ::
  "(vector \<Rightarrow> vector \<Rightarrow> real) \<Rightarrow> bmesh option \<Rightarrow> real \<Rightarrow> edge_ref list" where
  "am2a_dihedral_angle_analysis vec_angle bm primary_detection_angle_rad =
     (case bm of
        None \<Rightarrow> []
      | Some b \<Rightarrow>
          if edges b = [] then []
          else fold (am2a_step vec_angle b primary_detection_angle_rad)
                 [0..<length (edges b)] [])"

text \<open>\<open>candidates_by_type[t].add(edge)\<close> on the dictionary of sets.\<close>

definition dict_set_add ::
  "string \<Rightarrow> edge_ref \<Rightarrow> (string \<times> edge_ref list) list \<Rightarrow> (string \<times> edge_ref list) list" where
  "dict_set_add t edge candidates_by_type = AList.map_entry t (set_add edge) candidates_by_type"

definition am2b_step ::
  "bmesh \<Rightarrow> bool \<Rightarrow> bool \<Rightarrow> real \<Rightarrow> bool \<Rightarrow> bool \<Rightarrow> real \<Rightarrow> edge_ref
     \<Rightarrow> (string \<times> edge_ref list) list \<Rightarrow> (string \<times> edge_ref list) list" where
  "am2b_step b use_sharps use_creases min_crease_val use_seams use_bevels min_bevel_val i c0 =
     (let edge = edges b ! i;
          c1 = (if use_sharps \<and> (smooth edge = False \<or> use_edge_sharp edge = True)
                then dict_set_add TYPE_BLENDER_SHARP i c0 else c0);
          c2 = (if use_creases \<and> crease edge > min_crease_val
                then dict_set_add TYPE_BLENDER_CREASE i c1 else c1);
          c3 = (if use_seams \<and> seam edge
                then dict_set_add TYPE_BLENDER_SEAM i c2 else c2);
          c4 = (if use_bevels \<and> bevel_weight edge > min_bevel_val
                then dict_set_add TYPE_BLENDER_BEVEL i c3 else c3)
      in c4)"

definition am2b_existing_blender_data_scan ::
  "bmesh option \<Rightarrow> bool \<Rightarrow> bool \<Rightarrow> real \<Rightarrow> bool \<Rightarrow> bool \<Rightarrow> real
     \<Rightarrow> (string \<times> edge_ref list) list" where
  "am2b_existing_blender_data_scan bm use_sharps use_creases min_crease_val
       use_seams use_bevels min_bevel_val =
     (let candidates_by_type =
            [(TYPE_BLENDER_SHARP, []), (TYPE_BLENDER_CREASE, []),
             (TYPE_BLENDER_SEAM, []), (TYPE_BLENDER_BEVEL, [])]
      in case bm of
           None \<Rightarrow> candidates_by_type
         | Some b \<Rightarrow>
             if edges b = [] then candidates_by_type
             else fold (am2b_step b use_sharps use_creases min_crease_val
                          use_seams use_bevels min_bevel_val)
                    [0..<length (edges b)] candidates_by_type)"

text \<open>The curvature detector is a placeholder in the source: it adds no edge.\<close>

definition am2c_curvature_based_analysis :: "bmesh option \<Rightarrow> real \<Rightarrow> edge_ref list" where
  "am2c_curvature_based_analysis bm curvature_sensitivity =
     (case bm of
        None \<Rightarrow> []
      | Some b \<Rightarrow> if edges b = [] then [] else [])"

text \<open>
  The UV detector returns the empty set when there is no active UV layer; when there is
  one, the source prints that the analysis is a stub and returns the set as it is, empty.
\<close>

definition am2d_uv_island_boundary_analysis :: "bmesh option \<Rightarrow> edge_ref list" where
  "am2d_uv_island_boundary_analysis bm =
     (let uv_seam_boundary_candidates = [] in
      case bm of
        None \<Rightarrow> uv_seam_boundary_candidates
      | Some b \<Rightarrow>
          if edges b = [] then uv_seam_boundary_candidates
          else (case uv_active b of
                  None \<Rightarrow> uv_seam_boundary_candidates
                | Some uv_layer \<Rightarrow> uv_seam_boundary_candidates))"

section \<open>The orchestration (lines 392--476)\<close>

record auto_sharp_settings =
  auto_sharp_primary_angle :: real
  auto_sharp_use_existing_sharps :: bool
  auto_sharp_use_existing_creases :: bool
  auto_sharp_min_crease_value :: real
  auto_sharp_use_existing_seams :: bool
  auto_sharp_use_bevel_weights :: bool
  auto_sharp_min_bevel_weight :: real
  auto_sharp_use_curvature :: bool
  auto_sharp_curvature_sensitivity :: real
  auto_sharp_preserve_uv_boundaries :: bool
  auto_sharp_min_feature_length :: int

text \<open>
  The helper \<open>add_candidates\<close>: for each edge of the set, create the list of the edge when
  the edge is not yet a key, then append the pair \<open>(det_type, metric)\<close>.
\<close>

definition add_candidate ::
  "string \<Rightarrow> real \<Rightarrow> edge_ref \<Rightarrow> (edge_ref \<times> detection list) list
     \<Rightarrow> (edge_ref \<times> detection list) list" where
  "add_candidate det_type metric edge all_detected_candidates_map =
     (let m = (if map_of all_detected_candidates_map edge = None
               then AList.update edge [] all_detected_candidates_map
               else all_detected_candidates_map)
      in AList.map_entry edge (\<lambda>l. l @ [(det_type, metric)]) m)"

definition add_candidates ::
  "edge_ref list \<Rightarrow> string \<Rightarrow> real \<Rightarrow> (edge_ref \<times> detection list) list
     \<Rightarrow> (edge_ref \<times> detection list) list" where
  "add_candidates edge_set det_type metric all_detected_candidates_map =
     fold (add_candidate det_type metric) edge_set all_detected_candidates_map"

text \<open>The AM2 part of the orchestration: the map from edges to their candidate lists.\<close>

definition detect_candidates ::
  "(vector \<Rightarrow> vector \<Rightarrow> real) \<Rightarrow> bmesh option \<Rightarrow> auto_sharp_settings
     \<Rightarrow> (edge_ref \<times> detection list) list" where
  "detect_candidates vec_angle bm settings =
     (let m0 = [];
          angle_sharps = am2a_dihedral_angle_analysis vec_angle bm
                           (auto_sharp_primary_angle settings);
          m1 = add_candidates angle_sharps TYPE_ANGLE_SHARP
                 (auto_sharp_primary_angle settings) m0;
          existing_data_map = am2b_existing_blender_data_scan bm
                 (auto_sharp_use_existing_sharps settings)
                 (auto_sharp_use_existing_creases settings) (auto_sharp_min_crease_value settings)
                 (auto_sharp_use_existing_seams settings)
                 (auto_sharp_use_bevel_weights settings) (auto_sharp_min_bevel_weight settings);
          m2 = fold (\<lambda>(det_type, edges) m. add_candidates edges det_type 1 m)
                 existing_data_map m1;
          m3 = (if auto_sharp_use_curvature settings
                then (let curvature_sharps = am2c_curvature_based_analysis bm
                                               (auto_sharp_curvature_sensitivity settings)
                      in add_candidates curvature_sharps TYPE_CURVATURE_SHARP
                           (auto_sharp_curvature_sensitivity settings) m2)
                else m2);
          m4 = (if auto_sharp_preserve_uv_boundaries settings
                then (let uv_boundaries = am2d_uv_island_boundary_analysis bm
                      in add_candidates uv_boundaries TYPE_UV_SEAM_BOUNDARY 1 m3)
                else m3)
      in m4)"

definition auto_detect_and_mark_edges ::
  "(bmesh \<Rightarrow> bmesh option) \<Rightarrow> (vector \<Rightarrow> vector \<Rightarrow> real) \<Rightarrow> bmesh option
     \<Rightarrow> auto_sharp_settings option \<Rightarrow> edge_ref list" where
  "auto_detect_and_mark_edges lib_prepare vec_angle bm settings =
     (case settings of
        None \<Rightarrow> []
      | Some s \<Rightarrow>
          if bm = None then []
          else (case am1_prepare_bmesh_data lib_prepare bm of
                  (ok, bm') \<Rightarrow>
                    if \<not> ok then []
                    else (let all_detected_candidates_map = detect_candidates vec_angle bm' s
                          in if all_detected_candidates_map = [] then []
                             else (let final_edges_to_mark =
                                         fst (am3_filter_refine_prioritize bm'
                                                all_detected_candidates_map
                                                (auto_sharp_min_feature_length s))
                                   in if final_edges_to_mark = [] then []
                                      else final_edges_to_mark))))"

section \<open>AM4: applying the marks (lines 343--388)\<close>






section \<open>Notions of the specification used to state the claims\<close>

text \<open>
  A junction, as the glossary of the specification and the comment at line 306 of the source
  have it: a vertex incident to three or more of the edges of \<open>priority_resolved_edges\<close>.
\<close>

definition incident :: "bmesh \<Rightarrow> nat \<Rightarrow> edge_ref \<Rightarrow> bool" where
  "incident b v e =
     (e < length (edges b) \<and> (v = fst (verts (edges b ! e)) \<or> v = snd (verts (edges b ! e))))"

definition junction_vertex :: "bmesh \<Rightarrow> (edge_ref \<times> detection) list \<Rightarrow> nat \<Rightarrow> bool" where
  "junction_vertex b priority_resolved_edges v =
     (3 \<le> length (filter (incident b v) (map fst priority_resolved_edges)))"

section \<open>Concrete meshes and auxiliary notions\<close>

definition mk_edge :: "nat \<times> nat \<Rightarrow> bmface list \<Rightarrow> bmedge" where
  "mk_edge vs fs = \<lparr>verts = vs, link_faces = fs, smooth = True, use_edge_sharp = False,
                    crease = 0, seam = False, bevel_weight = 0\<rparr>"

definition face_up :: bmface where "face_up = \<lparr>normal = (0, 0, 1)\<rparr>"
definition face_side :: bmface where "face_side = \<lparr>normal = (1, 0, 0)\<rparr>"


definition mixed_mesh :: bmesh where
  "mixed_mesh =
     \<lparr>edges = [mk_edge (0, 1) [face_up, face_side], mk_edge (1, 2) [face_up],
               mk_edge (2, 3) [face_up, face_side, face_up], mk_edge (1, 3) [face_up, face_up]],
      uv_active = None\<rparr>"





text \<open>The winning types for which the second loop of AM3 adds the edge to the final set.\<close>

definition selected_type :: "string \<Rightarrow> bool" where
  "selected_type t =
     (t \<in> set [TYPE_BLENDER_SEAM, TYPE_UV_SEAM_BOUNDARY, TYPE_BLENDER_SHARP,
               TYPE_BLENDER_CREASE, TYPE_BLENDER_BEVEL]
      \<or> t \<in> set [TYPE_ANGLE_SHARP, TYPE_CURVATURE_SHARP])"

text \<open>
  Four edges around vertex 0, a chain of two edges, and a mesh with a UV layer whose only
  edge is a boundary edge.
\<close>

definition star_mesh :: bmesh where
  "star_mesh =
     \<lparr>edges = [mk_edge (0, 1) [face_up, face_side], mk_edge (0, 2) [face_up, face_up],
               mk_edge (0, 3) [face_up, face_up], mk_edge (0, 4) [face_up, face_up]],
      uv_active = None\<rparr>"

definition star_sources :: "(edge_ref \<times> detection list) list" where
  "star_sources =
     [(0, [(TYPE_ANGLE_SHARP, 1)]), (1, [(TYPE_BLENDER_SEAM, 1)]),
      (2, [(TYPE_BLENDER_SEAM, 1)]), (3, [(TYPE_BLENDER_SHARP, 1)])]"

definition chain_mesh :: bmesh where
  "chain_mesh =
     \<lparr>edges = [mk_edge (0, 1) [face_up, face_side], mk_edge (1, 2) [face_up, face_side]],
      uv_active = None\<rparr>"

definition chain_sources :: "(edge_ref \<times> detection list) list" where
  "chain_sources = [(0, [(TYPE_ANGLE_SHARP, 1)]), (1, [(TYPE_ANGLE_SHARP, 1)])]"

definition uv_boundary_mesh :: bmesh where
  "uv_boundary_mesh = \<lparr>edges = [mk_edge (0, 1) [face_up]], uv_active = Some 0\<rparr>"








section \<open>Facts about priority resolution\<close>

lemma py_index_Some: "py_index xs a = Some i \<Longrightarrow> i < length xs \<and> xs ! i = a"
  by (induction xs arbitrary: i) (auto split: if_splits)

lemma py_index_None: "py_index xs a = None \<longleftrightarrow> a \<notin> set xs"
  by (induction xs) auto

lemma py_index_inj: "py_index xs a = Some i \<Longrightarrow> py_index xs b = Some i \<Longrightarrow> a = b"
  using py_index_Some by metis

lemma priority_loop_fst_msgs:
  "fst (priority_loop ds w b msgs) = fst (priority_loop ds w b msgs')"
proof (induction ds arbitrary: w b msgs msgs')
  case Nil
  show ?case by simp
next
  case (Cons d ds)
  obtain t m where d: "d = (t, m)" by (cases d)
  show ?case
  proof (cases "py_index PRIORITY_ORDER t")
    case None
    then show ?thesis
      unfolding d
      using Cons.IH[of w b "msgs @ [warn_unknown t]" "msgs' @ [warn_unknown t]"]
      by simp
  next
    case (Some i)
    then show ?thesis
      unfolding d
      using Cons.IH[of "(t, m)" "enat i" msgs msgs'] Cons.IH[of w b msgs msgs']
      by simp
  qed
qed

lemma priority_loop_bound:
  "fst (snd (priority_loop ds w b msgs)) \<le> b"
proof (induction ds w b msgs rule: priority_loop.induct)
  case (1 winning best msgs)
  then show ?case by simp
next
  case (2 detection_type metric_value ds winning best msgs)
  show ?case
  proof (cases "py_index PRIORITY_ORDER detection_type")
    case None
    with "2.IH" show ?thesis by simp
  next
    case (Some i)
    show ?thesis
    proof (cases "enat i < best")
      case True
      from "2.IH" Some True
      have "fst (snd (priority_loop ds (detection_type, metric_value) (enat i) msgs)) \<le> enat i"
        by simp
      with True have
        "fst (snd (priority_loop ds (detection_type, metric_value) (enat i) msgs)) \<le> best"
        by (meson less_imp_le order_trans)
      with Some True show ?thesis by simp
    next
      case False
      with "2.IH" Some show ?thesis by simp
    qed
  qed
qed

lemma priority_loop_lower:
  "d \<in> set ds \<Longrightarrow> py_index PRIORITY_ORDER (fst d) = Some j \<Longrightarrow>
   fst (snd (priority_loop ds w b msgs)) \<le> enat j"
proof (induction ds w b msgs rule: priority_loop.induct)
  case (1 winning best msgs)
  then show ?case by simp
next
  case (2 detection_type metric_value ds winning best msgs)
  show ?case
  proof (cases "d = (detection_type, metric_value)")
    case True
    with "2.prems" have idx: "py_index PRIORITY_ORDER detection_type = Some j" by simp
    show ?thesis
    proof (cases "enat j < best")
      case True
      have "fst (snd (priority_loop ds (detection_type, metric_value) (enat j) msgs)) \<le> enat j"
        by (rule priority_loop_bound)
      with True idx show ?thesis by simp
    next
      case False
      have "fst (snd (priority_loop ds winning best msgs)) \<le> best"
        by (rule priority_loop_bound)
      moreover from False have "best \<le> enat j" by simp
      ultimately have "fst (snd (priority_loop ds winning best msgs)) \<le> enat j"
        by (rule order_trans)
      with False idx show ?thesis by simp
    qed
  next
    case False
    with "2.prems" have "d \<in> set ds" by simp
    with "2.IH" "2.prems"(2) show ?thesis
      by (auto split: option.splits)
  qed
qed

lemma priority_loop_result:
  "priority_loop ds w b msgs = (w', b', msgs') \<Longrightarrow>
   (w' = w \<and> b' = b) \<or>
   (w' \<in> set ds \<and> (\<exists>i. py_index PRIORITY_ORDER (fst w') = Some i \<and> b' = enat i))"
proof (induction ds w b msgs arbitrary: w' b' msgs' rule: priority_loop.induct)
  case (1 winning best msgs)
  then show ?case by simp
next
  case (2 detection_type metric_value ds winning best msgs)
  show ?case
  proof (cases "py_index PRIORITY_ORDER detection_type")
    case None
    with "2.prems" have
      "priority_loop ds winning best (msgs @ [warn_unknown detection_type]) = (w', b', msgs')"
      by simp
    with "2.IH" None show ?thesis by fastforce
  next
    case (Some i)
    show ?thesis
    proof (cases "enat i < best")
      case True
      with Some "2.prems" have
        "priority_loop ds (detection_type, metric_value) (enat i) msgs = (w', b', msgs')"
        by simp
      with "2.IH" Some True show ?thesis by fastforce
    next
      case False
      with Some "2.prems" have "priority_loop ds winning best msgs = (w', b', msgs')"
        by simp
      with "2.IH" Some False show ?thesis by fastforce
    qed
  qed
qed

lemma winning_detection_mem: "ds \<noteq> [] \<Longrightarrow> winning_detection ds \<in> set ds"
proof -
  assume ne: "ds \<noteq> []"
  obtain w' b' msgs' where r: "priority_loop ds (hd ds) \<infinity> [] = (w', b', msgs')"
    by (cases "priority_loop ds (hd ds) \<infinity> []") auto
  from priority_loop_result[OF r] ne have "w' \<in> set ds" by auto
  with r show ?thesis by (simp add: winning_detection_def)
qed

lemma winning_detection_known:
  assumes "d \<in> set ds" and "py_index PRIORITY_ORDER (fst d) = Some j"
  shows "\<exists>i. py_index PRIORITY_ORDER (fst (winning_detection ds)) = Some i \<and>
             (\<forall>d'\<in>set ds. \<forall>k. py_index PRIORITY_ORDER (fst d') = Some k \<longrightarrow> i \<le> k)"
proof -
  obtain w' b' msgs' where r: "priority_loop ds (hd ds) \<infinity> [] = (w', b', msgs')"
    by (cases "priority_loop ds (hd ds) \<infinity> []") auto
  have low: "b' \<le> enat k" if "d' \<in> set ds" "py_index PRIORITY_ORDER (fst d') = Some k" for d' k
    using priority_loop_lower[OF that, of "hd ds" \<infinity> "[]"] r by simp
  from low[OF assms] have "b' \<noteq> \<infinity>" by (cases b') auto
  with priority_loop_result[OF r] obtain i where
    i: "py_index PRIORITY_ORDER (fst w') = Some i" "b' = enat i" by auto
  have "\<forall>d'\<in>set ds. \<forall>k. py_index PRIORITY_ORDER (fst d') = Some k \<longrightarrow> i \<le> k"
    using low i(2) by auto
  with i(1) r show ?thesis by (simp add: winning_detection_def)
qed

lemma winning_detection_type_perm:
  assumes "mset ds' = mset ds" and "d \<in> set ds" and "py_index PRIORITY_ORDER (fst d) = Some j"
  shows "fst (winning_detection ds') = fst (winning_detection ds)"
proof -
  from assms(1) have seteq: "set ds' = set ds" by (rule mset_eq_setD)
  from assms(2) have ne: "ds \<noteq> []" by auto
  with seteq have ne': "ds' \<noteq> []" by auto
  from winning_detection_known[OF assms(2,3)] obtain i where
    i: "py_index PRIORITY_ORDER (fst (winning_detection ds)) = Some i"
       "\<forall>d'\<in>set ds. \<forall>k. py_index PRIORITY_ORDER (fst d') = Some k \<longrightarrow> i \<le> k" by blast
  from assms(2) seteq have "d \<in> set ds'" by simp
  from winning_detection_known[OF this assms(3)] obtain i' where
    i': "py_index PRIORITY_ORDER (fst (winning_detection ds')) = Some i'"
       "\<forall>d'\<in>set ds'. \<forall>k. py_index PRIORITY_ORDER (fst d') = Some k \<longrightarrow> i' \<le> k" by blast
  from winning_detection_mem[OF ne] i'(2) i(1) seteq have "i' \<le> i" by blast
  moreover from winning_detection_mem[OF ne'] i(2) i'(1) seteq have "i \<le> i'" by blast
  ultimately have "i = i'" by simp
  with i(1) i'(1) show ?thesis by (metis py_index_inj)
qed

lemma resolve_edge_Nil: "resolve_edge (e, []) (acc, msgs) = (acc, msgs)"
  by (simp add: resolve_edge_def)

lemma resolve_edge_Cons:
  "resolve_edge (e, d # ds) (acc, msgs) =
     (AList.update e (winning_detection (d # ds)) acc,
      snd (snd (priority_loop (d # ds) d \<infinity> msgs)))"
proof -
  obtain w' b' msgs' where r: "priority_loop (d # ds) d \<infinity> msgs = (w', b', msgs')"
    by (cases "priority_loop (d # ds) d \<infinity> msgs") auto
  have "w' = fst (priority_loop (d # ds) d \<infinity> msgs)" using r by simp
  also have "\<dots> = fst (priority_loop (d # ds) d \<infinity> [])" by (rule priority_loop_fst_msgs)
  finally have "w' = winning_detection (d # ds)" by (simp add: winning_detection_def)
  with r show ?thesis by (simp add: resolve_edge_def)
qed

lemma fold_resolve_edge_map_of:
  "distinct (map fst srcs) \<Longrightarrow>
   map_of (fst (fold resolve_edge srcs (acc, msgs))) e =
     (case map_of srcs e of
        Some (d # ds) \<Rightarrow> Some (winning_detection (d # ds))
      | _ \<Rightarrow> map_of acc e)"
proof (induction srcs arbitrary: acc msgs)
  case Nil
  show ?case by simp
next
  case (Cons item srcs)
  obtain e' dets where item: "item = (e', dets)" by (cases item)
  from Cons.prems item have dist: "distinct (map fst srcs)" and notin: "e' \<notin> fst ` set srcs"
    by auto
  from notin have none: "map_of srcs e' = None" by (simp add: map_of_eq_None_iff)
  show ?case
  proof (cases dets)
    case Nil
    with item Cons.IH[OF dist, of acc msgs] none show ?thesis
      by (auto simp: resolve_edge_Nil split: option.splits list.splits)
  next
    case (Cons d ds)
    with item Cons.IH[OF dist] none show ?thesis
      by (auto simp: resolve_edge_Cons update_conv' split: option.splits list.splits)
  qed
qed


lemma py_index_PRIORITY_ORDER:
  "py_index PRIORITY_ORDER TYPE_UV_SEAM_BOUNDARY = Some 0"
  "py_index PRIORITY_ORDER TYPE_BLENDER_SEAM = Some 1"
  "py_index PRIORITY_ORDER TYPE_BLENDER_SHARP = Some 2"
  "py_index PRIORITY_ORDER TYPE_BLENDER_CREASE = Some 3"
  "py_index PRIORITY_ORDER TYPE_ANGLE_SHARP = Some 4"
  "py_index PRIORITY_ORDER TYPE_CURVATURE_SHARP = Some 5"
  "py_index PRIORITY_ORDER TYPE_BLENDER_BEVEL = Some 6"
  "py_index PRIORITY_ORDER TYPE_NONE = None"
  by (simp_all add: PRIORITY_ORDER_def type_defs)

lemma priority_resolution_map_of:
  assumes "distinct (map fst srcs)"
  shows "map_of (fst (priority_resolution srcs)) e =
     (case map_of srcs e of
        Some (d # ds) \<Rightarrow> Some (winning_detection (d # ds))
      | _ \<Rightarrow> None)"
  unfolding priority_resolution_def
  using fold_resolve_edge_map_of[OF assms, of "[]" "[]" e]
  by (simp split: option.splits list.splits)

section \<open>Claim C1: priority resolution\<close>

text \<open>
  C1. For every edge that has at least one candidate detection, the resolved tag of the edge
  is one of its candidates, and its detection type has the lowest index in \<open>PRIORITY_ORDER\<close>
  among the candidates of the edge: whenever a candidate has index \<open>k\<close> in the order, the
  winner has an index \<open>i \<le> k\<close>. In particular, when the candidates of the edge are of the
  types \<open>BLENDER_SEAM\<close> (the specification's \<open>AUTHORED_SEAM\<close>) and \<open>ANGLE_SHARP\<close>, the
  resolved type is \<open>BLENDER_SEAM\<close>; and the resolved type is the same for every reordering of
  the candidate list.
\<close>

theorem priority_resolver_selects_lowest_index:
  assumes "distinct (map fst all_candidate_sources)"
    and "map_of all_candidate_sources edge = Some detections"
    and "detections \<noteq> []"
  shows "\<exists>w. map_of (fst (priority_resolution all_candidate_sources)) edge = Some w
           \<and> w \<in> set detections
           \<and> (\<forall>d\<in>set detections. \<forall>k. py_index PRIORITY_ORDER (fst d) = Some k \<longrightarrow>
                 (\<exists>i. py_index PRIORITY_ORDER (fst w) = Some i \<and> i \<le> k))
           \<and> (fst ` set detections = {TYPE_BLENDER_SEAM, TYPE_ANGLE_SHARP} \<longrightarrow>
                 fst w = TYPE_BLENDER_SEAM)
           \<and> (\<forall>detections'. mset detections' = mset detections
                 \<and> (\<exists>d\<in>set detections. fst d \<in> set PRIORITY_ORDER) \<longrightarrow>
                 fst (winning_detection detections') = fst w)"
proof -
  let ?w = "winning_detection detections"
  from assms(3) obtain d0 ds0 where ds: "detections = d0 # ds0" by (cases detections) auto
  have res: "map_of (fst (priority_resolution all_candidate_sources)) edge = Some ?w"
    using priority_resolution_map_of[OF assms(1), of edge] assms(2) ds by simp
  have mem: "?w \<in> set detections" by (rule winning_detection_mem[OF assms(3)])
  have low: "\<forall>d\<in>set detections. \<forall>k. py_index PRIORITY_ORDER (fst d) = Some k \<longrightarrow>
                 (\<exists>i. py_index PRIORITY_ORDER (fst ?w) = Some i \<and> i \<le> k)"
    using winning_detection_known by blast
  have seam: "fst ?w = TYPE_BLENDER_SEAM"
    if types: "fst ` set detections = {TYPE_BLENDER_SEAM, TYPE_ANGLE_SHARP}"
  proof -
    from types have "TYPE_BLENDER_SEAM \<in> fst ` set detections" by simp
    then obtain d where d: "d \<in> set detections" "fst d = TYPE_BLENDER_SEAM"
      by (auto simp only: image_iff)
    with low obtain i where i: "py_index PRIORITY_ORDER (fst ?w) = Some i" "i \<le> 1"
      using py_index_PRIORITY_ORDER(2) by metis
    from mem types have "fst ?w = TYPE_BLENDER_SEAM \<or> fst ?w = TYPE_ANGLE_SHARP" by auto
    with i show ?thesis by (auto simp: py_index_PRIORITY_ORDER)
  qed
  have perm: "fst (winning_detection detections') = fst ?w"
    if "mset detections' = mset detections" "\<exists>d\<in>set detections. fst d \<in> set PRIORITY_ORDER"
    for detections'
  proof -
    from that(2) obtain d where d: "d \<in> set detections" "fst d \<in> set PRIORITY_ORDER" by blast
    then obtain j where "py_index PRIORITY_ORDER (fst d) = Some j"
      using py_index_None[of PRIORITY_ORDER "fst d"] by (cases "py_index PRIORITY_ORDER (fst d)") auto
    from winning_detection_type_perm[OF that(1) d(1) this] show ?thesis .
  qed
  from res mem low seam perm show ?thesis by blast
qed

theorem priority_resolver_selects_lowest_index_witness:
  "distinct (map fst [(0::nat, [(TYPE_ANGLE_SHARP, 1/2), (TYPE_BLENDER_SEAM, 1::real)])])
   \<and> map_of [(0::nat, [(TYPE_ANGLE_SHARP, 1/2), (TYPE_BLENDER_SEAM, 1::real)])] 0
       = Some [(TYPE_ANGLE_SHARP, 1/2), (TYPE_BLENDER_SEAM, 1)]
   \<and> [(TYPE_ANGLE_SHARP, 1/2), (TYPE_BLENDER_SEAM, 1::real)] \<noteq> []
   \<and> fst ` set [(TYPE_ANGLE_SHARP, 1/2), (TYPE_BLENDER_SEAM, 1::real)]
       = {TYPE_BLENDER_SEAM, TYPE_ANGLE_SHARP}
   \<and> map_of (fst (priority_resolution
        [(0, [(TYPE_ANGLE_SHARP, 1/2), (TYPE_BLENDER_SEAM, 1)])])) 0
       = Some (TYPE_BLENDER_SEAM, 1)"
proof -
  let ?ds = "[(TYPE_ANGLE_SHARP, 1/2), (TYPE_BLENDER_SEAM, 1::real)]"
  have h1: "distinct (map fst [(0::nat, ?ds)])" by simp
  have h2: "map_of [(0::nat, ?ds)] 0 = Some ?ds" by simp
  have h3: "?ds \<noteq> []" by simp
  have h4: "fst ` set ?ds = {TYPE_BLENDER_SEAM, TYPE_ANGLE_SHARP}" by auto
  from priority_resolver_selects_lowest_index[OF h1 h2 h3] h4
  obtain w where w: "map_of (fst (priority_resolution [(0, ?ds)])) 0 = Some w"
    "w \<in> set ?ds" "fst w = TYPE_BLENDER_SEAM" by blast
  from w(2,3) have "w = (TYPE_BLENDER_SEAM, 1)" by (auto simp: type_defs)
  with w(1) h1 h2 h3 h4 show ?thesis by simp
qed


section \<open>Claim C4: the dihedral-angle detector\<close>

lemma set_set_add: "set (set_add x xs) = insert x (set xs)"
  by (auto simp: set_add_def)











section \<open>Facts about the selection loop of AM3\<close>

lemma select_edge_set:
  "set (fst (select_edge (e, (t, m)) acc)) = set (fst acc) \<union> (if selected_type t then {e} else {})"
  by (cases acc) (simp add: select_edge_def selected_type_def set_set_add)

lemma fold_select_edge_set:
  "set (fst (fold select_edge resolved acc)) =
     set (fst acc) \<union> {e. \<exists>t m. (e, (t, m)) \<in> set resolved \<and> selected_type t}"
proof (induction resolved arbitrary: acc)
  case Nil
  show ?case by simp
next
  case (Cons item resolved)
  obtain e t m where item: "item = (e, (t, m))" by (cases item) auto
  show ?case
    unfolding item by (auto simp: Cons.IH select_edge_set split: if_splits)
qed

lemma am3_set:
  "set (fst (am3_filter_refine_prioritize (Some b) srcs min_feature_length)) =
     {e. \<exists>t m. (e, (t, m)) \<in> set (fst (priority_resolution srcs)) \<and> selected_type t}"
proof (cases "srcs = []")
  case True
  then show ?thesis by (simp add: am3_filter_refine_prioritize_def priority_resolution_def)
next
  case False
  then show ?thesis
    by (simp add: am3_filter_refine_prioritize_def fold_select_edge_set split: prod.splits)
qed

lemma am3_ignores_min_feature_length:
  "am3_filter_refine_prioritize bm srcs m = am3_filter_refine_prioritize bm srcs m'"
  by (simp add: am3_filter_refine_prioritize_def)

section \<open>Claim C3: edges at a junction are retained\<close>

text \<open>
  C3. An edge whose resolved tag is \<open>ANGLE_SHARP\<close> or \<open>CURVATURE_SHARP\<close> and which is incident
  to a junction vertex (a vertex incident to three or more resolved edges) is in the final
  selected set, for every minimum feature length, hence also when the chain of the edge is
  shorter than that length. The witness is a single \<open>ANGLE_SHARP\<close> edge at a vertex with
  three other resolved edges, with minimum feature length 5.
\<close>

theorem junction_edge_retained:
  assumes "map_of (fst (priority_resolution all_candidate_sources)) edge = Some (t, m)"
    and "t = TYPE_ANGLE_SHARP \<or> t = TYPE_CURVATURE_SHARP"
    and "incident b v edge"
    and "junction_vertex b (fst (priority_resolution all_candidate_sources)) v"
  shows "edge \<in> set (fst (am3_filter_refine_prioritize (Some b) all_candidate_sources
                             min_feature_length))"
proof -
  from assms(1) have "(edge, (t, m)) \<in> set (fst (priority_resolution all_candidate_sources))"
    by (rule map_of_SomeD)
  moreover from assms(2) have "selected_type t" by (auto simp: selected_type_def)
  ultimately show ?thesis unfolding am3_set by blast
qed

lemma star_resolved:
  "priority_resolution star_sources =
     ([(0, (TYPE_ANGLE_SHARP, 1)), (1, (TYPE_BLENDER_SEAM, 1)),
       (2, (TYPE_BLENDER_SEAM, 1)), (3, (TYPE_BLENDER_SHARP, 1))], [])"
  by (simp add: priority_resolution_def star_sources_def resolve_edge_def
                py_index_PRIORITY_ORDER)

theorem junction_edge_retained_witness:
  "map_of (fst (priority_resolution star_sources)) 0 = Some (TYPE_ANGLE_SHARP, 1)
   \<and> incident star_mesh 0 0
   \<and> junction_vertex star_mesh (fst (priority_resolution star_sources)) 0
   \<and> 0 \<in> set (fst (am3_filter_refine_prioritize (Some star_mesh) star_sources 5))"
proof -
  have h1: "map_of (fst (priority_resolution star_sources)) 0 = Some (TYPE_ANGLE_SHARP, 1)"
    by (simp add: star_resolved)
  have h2: "TYPE_ANGLE_SHARP = TYPE_ANGLE_SHARP \<or> TYPE_ANGLE_SHARP = TYPE_CURVATURE_SHARP"
    by simp
  have h3: "incident star_mesh 0 0"
    by (simp add: incident_def star_mesh_def mk_edge_def)
  have h4: "junction_vertex star_mesh (fst (priority_resolution star_sources)) 0"
    by (simp add: junction_vertex_def star_resolved incident_def star_mesh_def mk_edge_def)
  from junction_edge_retained[OF h1 h2 h3 h4, of 5] h1 h3 h4 show ?thesis by blast
qed

lemma chain_resolved:
  "priority_resolution chain_sources =
     ([(0, (TYPE_ANGLE_SHARP, 1)), (1, (TYPE_ANGLE_SHARP, 1))], [])"
  by (simp add: priority_resolution_def chain_sources_def resolve_edge_def
                py_index_PRIORITY_ORDER)

section \<open>Claim C2: chains shorter than the minimum feature length\<close>

text \<open>
  C2. The claim says that a chain of fewer than \<open>min_feature_length\<close> geometry-derived edges
  is discarded. The source does not do so: on an isolated chain of two \<open>ANGLE_SHARP\<close> edges
  with minimum feature length 3, \<open>am3_filter_refine_prioritize\<close> returns both edges
  (\<open>am3_ignores_min_feature_length\<close>: the result never depends on the length).
\<close>

theorem short_chain_kept:
  "fst (am3_filter_refine_prioritize (Some chain_mesh) chain_sources 3) = [0, 1]"
proof -
  have ne: "chain_sources \<noteq> []" by (simp add: chain_sources_def)
  have "fst (am3_filter_refine_prioritize (Some chain_mesh) chain_sources 3)
          = fst (fold select_edge [(0, (TYPE_ANGLE_SHARP, 1)), (1, (TYPE_ANGLE_SHARP, 1))]
                  ([], []))"
    by (simp add: am3_filter_refine_prioritize_def ne chain_resolved)
  also have "\<dots> = [0, 1]"
    by (simp add: select_edge_def set_add_def type_defs)
  finally show ?thesis .
qed

section \<open>Claim C6: candidates of an unrecognised type\<close>

text \<open>
  C6. The claim says that an edge with a candidate of an unrecognised type is still resolved
  and is not dropped from the output. On an edge whose only candidate has the type
  \<open>TYPE_NONE\<close>, priority resolution resolves the edge to that candidate and prints the
  warning, and the selection loop then leaves the edge out: the final set is empty.
\<close>

theorem unknown_type_edge_dropped:
  "priority_resolution [(0, [(TYPE_NONE, 1)])]
     = ([(0, (TYPE_NONE, 1))], [warn_unknown TYPE_NONE])
   \<and> am3_filter_refine_prioritize (Some mixed_mesh) [(0, [(TYPE_NONE, 1)])] 1
     = ([], [warn_unknown TYPE_NONE])"
proof -
  have r: "priority_resolution [(0, [(TYPE_NONE, 1)])]
     = ([(0, (TYPE_NONE, 1))], [warn_unknown TYPE_NONE])"
    by (simp add: priority_resolution_def resolve_edge_def py_index_PRIORITY_ORDER)
  have "am3_filter_refine_prioritize (Some mixed_mesh) [(0, [(TYPE_NONE, 1)])] 1
     = (fst (fold select_edge [(0, (TYPE_NONE, 1))] ([], [])), [warn_unknown TYPE_NONE])"
    by (simp add: am3_filter_refine_prioritize_def r)
  also have "fst (fold select_edge [(0, (TYPE_NONE, 1))] ([], [])) = []"
    by (simp add: select_edge_def type_defs)
  finally show ?thesis using r by simp
qed

section \<open>Claim C9: boundary edges of a mesh with a UV layer\<close>

text \<open>
  C9. The claim says that on a mesh with a UV layer every boundary edge is a
  \<open>UV_SEAM_BOUNDARY\<close> candidate. On a mesh with an active UV layer whose only edge has one
  incident face, \<open>am2d_uv_island_boundary_analysis\<close> returns the empty set.
\<close>

theorem uv_boundary_edge_not_emitted:
  "uv_active uv_boundary_mesh = Some 0
   \<and> length (edges uv_boundary_mesh) = 1
   \<and> length (link_faces (edges uv_boundary_mesh ! 0)) = 1
   \<and> am2d_uv_island_boundary_analysis (Some uv_boundary_mesh) = []"
  by (simp add: uv_boundary_mesh_def mk_edge_def am2d_uv_island_boundary_analysis_def)


section \<open>Evaluation of the detection pass on the crease mesh\<close>




section \<open>Claim C7: the metric of a candidate\<close>





section \<open>Claim C8: a mesh without UV layer\<close>




section \<open>Facts about the aggregation of candidates\<close>





























section \<open>Facts about reordering the candidates\<close>













lemma auto_detect_and_mark_edges_eq:
  "auto_detect_and_mark_edges lib_prepare vec_angle (Some b) (Some s) =
     (case lib_prepare b of
        None \<Rightarrow> []
      | Some b' \<Rightarrow>
          fst (am3_filter_refine_prioritize (Some b') (detect_candidates vec_angle (Some b') s)
                 (auto_sharp_min_feature_length s)))"
  by (simp add: auto_detect_and_mark_edges_def am1_prepare_bmesh_data_def Let_def
                am3_filter_refine_prioritize_def split: option.splits)


section \<open>Claim C5: determinism and independence of the order\<close>



section \<open>Claim C10: the feature applicator\<close>















end
